theory Spec2Isabelle
  imports Main "HOL-Library.AList"
begin

section \<open>Custom attribute validators of taiga-back\<close>

text \<open>
  A shallow embedding of \<^verbatim>\<open>taiga/projects/custom_attributes/validators.py\<close>:
  the uniqueness check of custom attribute definitions, the estimation normaliser
  \<^verbatim>\<open>validate_estimation\<close> and the check of a values payload
  \<^verbatim>\<open>validate_attributes_values\<close>.
\<close>

subsection \<open>Python values and exceptions\<close>

text \<open>
  The JSON field hands the validator whatever the request body held, so the value of
  \<^verbatim>\<open>attributes_values\<close> is any JSON value. A dict is an association list in
  iteration order; in Python its keys are distinct.
  JSON numbers with a fraction (Python floats) are not modelled.
\<close>

datatype json =
    JNull
  | JBool bool
  | JNum int
  | JStr string
  | JList "json list"
  | JDict "(string \<times> json) list"

text \<open>
  Every exception the code can raise is a value. \<open>ValidationError\<close> carries the message
  of the source; the other constructors are the Python built-in exceptions that escape
  the validator uncaught.
\<close>

datatype error =
    ValidationError string
  | KeyError
  | TypeError
  | ValueError
  | IndexError

abbreviation DuplicateName :: error where
  "DuplicateName \<equiv> ValidationError ''Already exists one with the same name.''"

abbreviation InvalidPayloadShape :: error where
  "InvalidPayloadShape \<equiv> ValidationError ''Invalid content. It must be {\"key\": \"value\",...}''"

abbreviation UnknownAttributeReference :: error where
  "UnknownAttributeReference \<equiv> ValidationError ''It contain invalid custom fields.''"

subsection \<open>Decimal digits: \<^verbatim>\<open>int\<close> and \<^verbatim>\<open>str\<close>\<close>

definition is_digit :: "char \<Rightarrow> bool" where
  "is_digit c = (48 \<le> (of_char c :: nat) \<and> (of_char c :: nat) \<le> 57)"

definition digit_val :: "char \<Rightarrow> nat" where
  "digit_val c = of_char c - 48"

definition digit_char :: "nat \<Rightarrow> char" where
  "digit_char n = char_of (48 + n)"

text \<open>One or more decimal digits.\<close>

definition all_digits :: "string \<Rightarrow> bool" where
  "all_digits ds = (ds \<noteq> [] \<and> list_all is_digit ds)"

text \<open>The value of a string of decimal digits, most significant digit first.\<close>

definition parse_digits :: "string \<Rightarrow> nat" where
  "parse_digits ds = foldl (\<lambda>a c. 10 * a + digit_val c) 0 ds"

text \<open>\<^verbatim>\<open>str(n)\<close> for a non-negative integer.\<close>

fun str_nat :: "nat \<Rightarrow> string" where
  "str_nat n = (if n < 10 then [digit_char n] else str_nat (n div 10) @ [digit_char (n mod 10)])"

declare str_nat.simps [simp del]

subsection \<open>The estimation normaliser\<close>

text \<open>
  \<^verbatim>\<open>re.findall('([0-9]+w)*([0-9]+d)*([0-9]+h)*', value)[0]\<close>. The pattern matches the
  empty string, so the first match always exists and starts at position 0. One
  iteration of a group, \<^verbatim>\<open>[0-9]+u\<close>, takes the whole run of digits at the front and then
  needs the unit letter; giving digits back cannot help, the next character being a digit.
\<close>

definition match_unit :: "char \<Rightarrow> string \<Rightarrow> (string \<times> string) option" where
  "match_unit u s =
     (let ds = takeWhile is_digit s in
      case dropWhile is_digit s of
        [] \<Rightarrow> None
      | c # rest \<Rightarrow> if ds \<noteq> [] \<and> c = u then Some (ds @ [u], rest) else None)"

text \<open>
  A starred group is greedy: it iterates as long as an iteration matches, and keeps the
  text of its last iteration. Whatever follows in the pattern can match the empty
  string, so the matcher never has to give an iteration back. A group that did not
  take part is reported by \<^verbatim>\<open>findall\<close> as the empty string.
\<close>

function match_star :: "char \<Rightarrow> string \<Rightarrow> string \<Rightarrow> string \<times> string" where
  "match_star u item s =
     (case match_unit u s of
        None \<Rightarrow> (item, s)
      | Some (item', s') \<Rightarrow> match_star u item' s')"
  by pat_completeness auto
termination
proof (relation "measure (\<lambda>(u, item, s). length s)")
  show "wf (measure (\<lambda>(u, item, s). length s))"
    by simp
next
  fix u :: char and item s :: string and x item' s'
  assume "match_unit u s = Some x" and "(item', s') = x"
  then obtain c where "dropWhile is_digit s = c # s'"
    by (auto simp: match_unit_def Let_def split: list.splits if_splits)
  then have "length (c # s') \<le> length s"
    by (metis length_dropWhile_le)
  then show "((u, item', s'), (u, item, s)) \<in> measure (\<lambda>(u, item, s). length s)"
    by simp
qed

declare match_star.simps [simp del]

definition findall_first :: "string \<Rightarrow> string \<times> string \<times> string" where
  "findall_first v =
     (let (gw, s1) = match_star (CHR ''w'') [] v;
          (gd, s2) = match_star (CHR ''d'') [] s1;
          (gh, s3) = match_star (CHR ''h'') [] s2
      in (gw, gd, gh))"

text \<open>\<^verbatim>\<open>int('0' + item[:-1])\<close>: the digits of the group, 0 for a group that is empty.\<close>

definition item_value :: "string \<Rightarrow> nat" where
  "item_value item = parse_digits (CHR ''0'' # butlast item)"

text \<open>
  The two carry loops. The components come from digit strings, so they are natural
  numbers; Python integers are unbounded, and so is \<open>nat\<close>.
\<close>

function carry_hours :: "nat \<times> nat \<Rightarrow> nat \<times> nat" where
  "carry_hours (d, h) = (if h \<ge> 8 then carry_hours (d + 1, h - 8) else (d, h))"
  by pat_completeness auto
termination
  by (relation "measure (\<lambda>(d, h). h)") auto

function carry_days :: "nat \<times> nat \<Rightarrow> nat \<times> nat" where
  "carry_days (w, d) = (if d \<ge> 5 then carry_days (w + 1, d - 5) else (w, d))"
  by pat_completeness auto
termination
  by (relation "measure (\<lambda>(w, d). d)") auto

declare carry_hours.simps [simp del]
declare carry_days.simps [simp del]

definition render :: "nat \<Rightarrow> nat \<Rightarrow> nat \<Rightarrow> string" where
  "render w d h =
     (if w > 0 then str_nat w @ ''w'' else '''') @
     (if d > 0 then str_nat d @ ''d'' else '''') @
     (if h > 0 then str_nat h @ ''h'' else '''')"

definition normalize_estimation :: "string \<Rightarrow> string" where
  "normalize_estimation v =
     (let (gw, gd, gh) = findall_first v;
          (d1, h1) = carry_hours (item_value gd, item_value gh);
          (w2, d2) = carry_days (item_value gw, d1)
      in render w2 d2 h1)"

text \<open>
  \<^verbatim>\<open>validate_estimation(value)\<close>: \<^verbatim>\<open>re.findall\<close> raises \<^verbatim>\<open>TypeError\<close> on anything that is
  not a string; on a string the function has no failing path.
\<close>

fun validate_estimation :: "json \<Rightarrow> error + string" where
  "validate_estimation (JStr v) = Inr (normalize_estimation v)"
| "validate_estimation _ = Inl TypeError"

subsection \<open>The repository\<close>

text \<open>
  A custom attribute definition, as far as the validators read it. The model classes
  are not part of this module; \<open>project\<close> is the primary key of the owning project, and
  the three columns \<open>id\<close>, \<open>project\<close> and \<open>name\<close> are never null.
\<close>

record attr_def =
  attr_id :: int
  attr_project :: int
  attr_name :: string
  attr_type :: string

datatype entity_kind = Epic | UserStory | Task | Issue

text \<open>One table of definitions for each entity kind.\<close>

record database =
  EpicCustomAttribute :: "attr_def list"
  UserStoryCustomAttribute :: "attr_def list"
  TaskCustomAttribute :: "attr_def list"
  IssueCustomAttribute :: "attr_def list"

text \<open>
  \<^verbatim>\<open>Meta.model\<close> of the four definition validators and \<^verbatim>\<open>_custom_attribute_model\<close> of
  the four values validators.
\<close>

fun custom_attribute_model :: "entity_kind \<Rightarrow> database \<Rightarrow> attr_def list" where
  "custom_attribute_model Epic db = EpicCustomAttribute db"
| "custom_attribute_model UserStory db = UserStoryCustomAttribute db"
| "custom_attribute_model Task db = TaskCustomAttribute db"
| "custom_attribute_model Issue db = IssueCustomAttribute db"

subsection \<open>The uniqueness check of a definition\<close>

text \<open>
  \<^verbatim>\<open>attrs.get("id", None)\<close>, \<^verbatim>\<open>attrs.get("name", None)\<close> and
  \<^verbatim>\<open>attrs.get("project", None)\<close>: \<open>None\<close> when the key is absent (or holds \<^verbatim>\<open>None\<close>).
  The project of the mutation is a model instance, given here by its primary key.
\<close>

record definition_attrs =
  attrs_id :: "int option"
  attrs_name :: "string option"
  attrs_project :: "int option"

text \<open>
  Python's \<^verbatim>\<open>a or b\<close> is \<^verbatim>\<open>a\<close> when \<^verbatim>\<open>a\<close> is truthy and \<^verbatim>\<open>b\<close> otherwise. \<^verbatim>\<open>None\<close>,
  the integer 0 and the empty string are falsy; a model instance is always truthy.
\<close>

definition or_int :: "int option \<Rightarrow> int option \<Rightarrow> int option" where
  "or_int a b = (case a of None \<Rightarrow> b | Some n \<Rightarrow> if n \<noteq> 0 then a else b)"

definition or_str :: "string option \<Rightarrow> string option \<Rightarrow> string option" where
  "or_str a b = (case a of None \<Rightarrow> b | Some s \<Rightarrow> if s \<noteq> [] then a else b)"

definition or_instance :: "'a option \<Rightarrow> 'a option \<Rightarrow> 'a option" where
  "or_instance a b = (case a of None \<Rightarrow> b | Some x \<Rightarrow> a)"

text \<open>Lines 47 to 54: the resolved triple \<open>(data_id, data_name, data_project)\<close>.\<close>

definition resolve_fields ::
  "attr_def option \<Rightarrow> definition_attrs \<Rightarrow> int option \<times> string option \<times> int option" where
  "resolve_fields object attrs =
     (let data_id = attrs_id attrs;
          data_name = attrs_name attrs;
          data_project = attrs_project attrs
      in case object of
           None \<Rightarrow> (data_id, data_name, data_project)
         | Some obj \<Rightarrow>
             (or_int data_id (Some (attr_id obj)),
              or_str data_name (Some (attr_name obj)),
              or_instance data_project (Some (attr_project obj))))"

text \<open>
  \<^verbatim>\<open>model.objects.filter(project=data_project, name=data_name).exclude(id=data_id)\<close>.
  A lookup with \<^verbatim>\<open>None\<close> asks for a null column: the filter then finds no row, and
  the exclusion removes none.
\<close>

definition filter_exclude ::
  "attr_def list \<Rightarrow> int option \<Rightarrow> string option \<Rightarrow> int option \<Rightarrow> attr_def list" where
  "filter_exclude model data_project data_name data_id =
     filter (\<lambda>r. Some (attr_project r) = data_project \<and> Some (attr_name r) = data_name
                 \<and> Some (attr_id r) \<noteq> data_id) model"

definition validate_integrity_between_project_and_name ::
  "entity_kind \<Rightarrow> attr_def option \<Rightarrow> database \<Rightarrow> definition_attrs \<Rightarrow> error + definition_attrs" where
  "validate_integrity_between_project_and_name kind object db attrs =
     (case resolve_fields object attrs of (data_id, data_name, data_project) \<Rightarrow>
        let model = custom_attribute_model kind db;
            qs = filter_exclude model data_project data_name data_id
        in if qs \<noteq> [] then Inl DuplicateName else Inr attrs)"

definition validate_name ::
  "entity_kind \<Rightarrow> attr_def option \<Rightarrow> database \<Rightarrow> definition_attrs \<Rightarrow> error + definition_attrs" where
  "validate_name = validate_integrity_between_project_and_name"

definition validate_project ::
  "entity_kind \<Rightarrow> attr_def option \<Rightarrow> database \<Rightarrow> definition_attrs \<Rightarrow> error + definition_attrs" where
  "validate_project = validate_integrity_between_project_and_name"

subsection \<open>\<^verbatim>\<open>int()\<close> and indexing on JSON values\<close>

text \<open>
  \<^verbatim>\<open>int(s)\<close> on a string: white space at both ends is dropped, one sign is allowed, and
  the rest must be decimal digits, where single underscores may stand between two
  digits (Python 3.6 and later). A string is a list of bytes here and the strings are
  ASCII: the white space is the bytes 9 to 13 and 32, the digits are \<^verbatim>\<open>0\<close> to \<^verbatim>\<open>9\<close>.
\<close>

definition is_space :: "char \<Rightarrow> bool" where
  "is_space c = (let n = (of_char c :: nat) in (9 \<le> n \<and> n \<le> 13) \<or> n = 32)"

definition strip :: "string \<Rightarrow> string" where
  "strip s = rev (dropWhile is_space (rev (dropWhile is_space s)))"

text \<open>A digit, then digits each with at most one underscore in front.\<close>

fun underscored_digits :: "string \<Rightarrow> bool" where
  "underscored_digits [] = False"
| "underscored_digits [c] = is_digit c"
| "underscored_digits (c # c' # cs) =
     (is_digit c \<and> (if c' = CHR ''_'' then underscored_digits cs else underscored_digits (c' # cs)))"

definition digits_value :: "string \<Rightarrow> int" where
  "digits_value ds = int (parse_digits (filter (\<lambda>c. c \<noteq> CHR ''_'') ds))"

definition int_of_str :: "string \<Rightarrow> int option" where
  "int_of_str s =
     (case strip s of
        [] \<Rightarrow> None
      | c # ds \<Rightarrow>
          if c = CHR ''-'' then (if underscored_digits ds then Some (- digits_value ds) else None)
          else if c = CHR ''+'' then (if underscored_digits ds then Some (digits_value ds) else None)
          else if underscored_digits (c # ds) then Some (digits_value (c # ds))
          else None)"

fun py_int :: "json \<Rightarrow> error + int" where
  "py_int (JNum n) = Inr n"
| "py_int (JBool b) = Inr (if b then 1 else 0)"
| "py_int (JStr s) = (case int_of_str s of None \<Rightarrow> Inl ValueError | Some n \<Rightarrow> Inr n)"
| "py_int _ = Inl TypeError"

text \<open>\<^verbatim>\<open>xs[i]\<close> on a list of length \<open>len\<close>: a negative index counts from the end.\<close>

definition py_index :: "nat \<Rightarrow> int \<Rightarrow> error + nat" where
  "py_index len i =
     (let j = (if i < 0 then int len + i else i)
      in if 0 \<le> j \<and> j < int len then Inr (nat j) else Inl IndexError)"

fun list_index :: "json list \<Rightarrow> json \<Rightarrow> error + nat" where
  "list_index xs (JNum n) = py_index (length xs) n"
| "list_index xs (JBool b) = py_index (length xs) (if b then 1 else 0)"
| "list_index xs _ = Inl TypeError"

fun truthy :: "json \<Rightarrow> bool" where
  "truthy JNull = False"
| "truthy (JBool b) = b"
| "truthy (JNum n) = (n \<noteq> 0)"
| "truthy (JStr s) = (s \<noteq> [])"
| "truthy (JList xs) = (xs \<noteq> [])"
| "truthy (JDict d) = (d \<noteq> [])"

subsection \<open>The values payload validator\<close>

text \<open>
  The container (epic, user story, task or issue) of a values payload; the validator
  reads its \<^verbatim>\<open>project_id\<close> only.
\<close>

record container =
  container_project_id :: int

text \<open>\<^verbatim>\<open>self.object\<close>: the payload already stored, with its container.\<close>

record values_object =
  object_attributes_values :: json
  object_container :: container

text \<open>
  The mutation: \<open>attributes_values\<close> is \<open>None\<close> when the key is absent from \<^verbatim>\<open>attrs\<close>,
  \<open>attrs_container\<close> is \<^verbatim>\<open>attrs.get(self._container_field, None)\<close>.
\<close>

record values_attrs =
  attributes_values :: "json option"
  attrs_container :: "container option"

text \<open>
  Lines 122 to 124 on a dict. The loop walks the keys the dict had at the start and
  assigns to existing keys only; \<open>d\<close> is the dict as mutated so far.
\<close>

fun normalize_dict ::
  "int list \<Rightarrow> string list \<Rightarrow> (string \<times> json) list \<Rightarrow> error + (string \<times> json) list" where
  "normalize_dict estimate_field_ids [] d = Inr d"
| "normalize_dict estimate_field_ids (key # keys) d =
     (case int_of_str key of
        None \<Rightarrow> Inl ValueError
      | Some k \<Rightarrow>
          if k \<in> set estimate_field_ids then
            (case map_of d key of
               None \<Rightarrow> Inl KeyError
             | Some v \<Rightarrow>
                 (case validate_estimation v of
                    Inl e \<Rightarrow> Inl e
                  | Inr s \<Rightarrow> normalize_dict estimate_field_ids keys (AList.update key (JStr s) d)))
          else normalize_dict estimate_field_ids keys d)"

text \<open>
  The same lines on a list: the iterator yields the element at position \<open>i\<close> of the list
  as mutated so far, and that element is also the subscript.
\<close>

function normalize_list :: "int list \<Rightarrow> nat \<Rightarrow> json list \<Rightarrow> error + json list" where
  "normalize_list estimate_field_ids i xs =
     (if i \<ge> length xs then Inr xs
      else
        (case py_int (xs ! i) of
           Inl e \<Rightarrow> Inl e
         | Inr k \<Rightarrow>
             if k \<in> set estimate_field_ids then
               (case list_index xs (xs ! i) of
                  Inl e \<Rightarrow> Inl e
                | Inr j \<Rightarrow>
                    (case validate_estimation (xs ! j) of
                       Inl e \<Rightarrow> Inl e
                     | Inr s \<Rightarrow> normalize_list estimate_field_ids (i + 1) (xs[j := JStr s])))
             else normalize_list estimate_field_ids (i + 1) xs))"
  by pat_completeness auto
termination
  by (relation "measure (\<lambda>(ids, i, xs). length xs - i)") auto

declare normalize_list.simps [simp del]

text \<open>
  On a string the loop yields its characters; subscripting a string with a string
  raises \<^verbatim>\<open>TypeError\<close>.
\<close>

fun normalize_str :: "int list \<Rightarrow> string \<Rightarrow> error + unit" where
  "normalize_str estimate_field_ids [] = Inr ()"
| "normalize_str estimate_field_ids (c # cs) =
     (case int_of_str [c] of
        None \<Rightarrow> Inl ValueError
      | Some k \<Rightarrow>
          if k \<in> set estimate_field_ids then Inl TypeError
          else normalize_str estimate_field_ids cs)"

text \<open>The loop on any JSON value: \<^verbatim>\<open>None\<close>, booleans and numbers are not iterable.\<close>

fun normalize_attributes :: "int list \<Rightarrow> json \<Rightarrow> error + json" where
  "normalize_attributes estimate_field_ids (JDict d) =
     (case normalize_dict estimate_field_ids (map fst d) d of
        Inl e \<Rightarrow> Inl e
      | Inr d' \<Rightarrow> Inr (JDict d'))"
| "normalize_attributes estimate_field_ids (JList xs) =
     (case normalize_list estimate_field_ids 0 xs of
        Inl e \<Rightarrow> Inl e
      | Inr xs' \<Rightarrow> Inr (JList xs'))"
| "normalize_attributes estimate_field_ids (JStr s) =
     (case normalize_str estimate_field_ids s of
        Inl e \<Rightarrow> Inl e
      | Inr _ \<Rightarrow> Inr (JStr s))"
| "normalize_attributes estimate_field_ids _ = Inl TypeError"

text \<open>
  \<^verbatim>\<open>objects.filter(project=project_id, id__in=values_ids).count()\<close>. The object-relational
  mapper is outside the repository; when the filter is built it turns each element of
  \<^verbatim>\<open>values_ids\<close> into an id with \<^verbatim>\<open>int()\<close>, which raises \<^verbatim>\<open>ValueError\<close> on a key that is
  not a number, and no query is sent then.
\<close>

definition count_in :: "attr_def list \<Rightarrow> int option \<Rightarrow> string list \<Rightarrow> error + nat" where
  "count_in model project_id values_ids =
     (if list_all (\<lambda>k. int_of_str k \<noteq> None) values_ids then
        Inr (length (filter (\<lambda>r. Some (attr_project r) = project_id
                                  \<and> Some (attr_id r) \<in> set (map int_of_str values_ids)) model))
      else Inl ValueError)"

text \<open>The queries a validation sends to the repository, in the order it sends them.\<close>

datatype query =
    Query_all entity_kind
  | Query_count entity_kind "int option" "string list"

text \<open>
  Line 120: the ids of the user story attributes of type \<^verbatim>\<open>"est"\<close>, whatever the
  entity kind of the validator.
\<close>

definition estimate_field_ids :: "database \<Rightarrow> int list" where
  "estimate_field_ids db =
     map attr_id (filter (\<lambda>field. attr_type field = ''est'') (UserStoryCustomAttribute db))"

text \<open>
  Lines 126 to 128: \<^verbatim>\<open>data_values\<close>, the supplied value unless there is a stored
  payload and the supplied value is falsy.
\<close>

definition effective_values :: "values_object option \<Rightarrow> json \<Rightarrow> json" where
  "effective_values object data_values =
     (case object of
        None \<Rightarrow> data_values
      | Some obj \<Rightarrow> if truthy data_values then data_values else object_attributes_values obj)"

text \<open>Lines 134 to 140: \<^verbatim>\<open>project_id\<close>.\<close>

definition effective_project_id :: "values_object option \<Rightarrow> values_attrs \<Rightarrow> int option" where
  "effective_project_id object attrs =
     (case attrs_container attrs of
        Some data_container \<Rightarrow> Some (container_project_id data_container)
      | None \<Rightarrow>
          (case object of
             Some obj \<Rightarrow> Some (container_project_id (object_container obj))
           | None \<Rightarrow> None))"

text \<open>
  \<^verbatim>\<open>validate_attributes_values(self, attrs, source)\<close> of the values validator for
  entity kind \<open>kind\<close>. The result is the list of queries sent and either the exception
  raised or \<^verbatim>\<open>attrs\<close>, whose \<^verbatim>\<open>attributes_values\<close> the loop has mutated in place.
\<close>

definition validate_attributes_values ::
  "entity_kind \<Rightarrow> values_object option \<Rightarrow> database \<Rightarrow> values_attrs
     \<Rightarrow> query list \<times> (error + values_attrs)" where
  "validate_attributes_values kind object db attrs =
     (let sent = [Query_all UserStory]
      in case attributes_values attrs of
           None \<Rightarrow> (sent, Inl KeyError)
         | Some attributes_dict \<Rightarrow>
             (case normalize_attributes (estimate_field_ids db) attributes_dict of
                Inl e \<Rightarrow> (sent, Inl e)
              | Inr attributes_dict' \<Rightarrow>
                  let attrs' = attrs\<lparr>attributes_values := Some attributes_dict'\<rparr>
                  in (case effective_values object attributes_dict' of
                        JDict d \<Rightarrow>
                          let project_id = effective_project_id object attrs;
                              values_ids = map fst d
                          in (case count_in (custom_attribute_model kind db) project_id values_ids of
                                Inl e \<Rightarrow> (sent, Inl e)
                              | Inr n \<Rightarrow>
                                  let sent' = sent @ [Query_count kind project_id values_ids]
                                  in if n \<noteq> length values_ids
                                     then (sent', Inl UnknownAttributeReference)
                                     else (sent', Inr attrs'))
                      | _ \<Rightarrow> (sent, Inl InvalidPayloadShape))))"

subsection \<open>The duration grammar of the specification\<close>

text \<open>
  The specification's grammar: an optional \<^verbatim>\<open><int>w\<close>, an optional \<^verbatim>\<open><int>d\<close> and an
  optional \<^verbatim>\<open><int>h\<close>, in that order. A component is \<open>None\<close> when it is missing and
  \<open>Some ds\<close> with \<open>ds\<close> its digits otherwise.
\<close>

fun component :: "string option \<Rightarrow> char \<Rightarrow> string" where
  "component None u = []"
| "component (Some ds) u = ds @ [u]"

fun well_formed :: "string option \<Rightarrow> bool" where
  "well_formed None = True"
| "well_formed (Some ds) = all_digits ds"

text \<open>The number a component stands for; a missing component counts as 0.\<close>

fun amount :: "string option \<Rightarrow> nat" where
  "amount None = 0"
| "amount (Some ds) = parse_digits ds"

definition duration :: "string option \<Rightarrow> string option \<Rightarrow> string option \<Rightarrow> string" where
  "duration wo do ho =
     component wo (CHR ''w'') @ component do (CHR ''d'') @ component ho (CHR ''h'')"

text \<open>
  A recogniser for the grammar: take an \<^verbatim>\<open><int>w\<close> off the front if there is one, then
  an \<^verbatim>\<open><int>d\<close>, then an \<^verbatim>\<open><int>h\<close>; nothing may be left.
\<close>

definition strip_component :: "char \<Rightarrow> string \<Rightarrow> string" where
  "strip_component u s = (case match_unit u s of None \<Rightarrow> s | Some (item, rest) \<Rightarrow> rest)"

definition duration_grammar :: "string \<Rightarrow> bool" where
  "duration_grammar s =
     (strip_component (CHR ''h'') (strip_component (CHR ''d'') (strip_component (CHR ''w'') s)) = [])"

text \<open>The component that renders a number: none for 0.\<close>

definition nonzero :: "nat \<Rightarrow> string option" where
  "nonzero n = (if n > 0 then Some (str_nat n) else None)"

subsection \<open>The invariant of the data model and example data\<close>

text \<open>
  The invariant of the data model: among the definitions of one entity kind, no two
  rows with different ids share project and name.
\<close>

definition unique_names :: "attr_def list \<Rightarrow> bool" where
  "unique_names model =
     list_all (\<lambda>r. list_all (\<lambda>r'. attr_project r = attr_project r' \<and> attr_name r = attr_name r'
                                  \<longrightarrow> attr_id r = attr_id r') model) model"

text \<open>
  Two user story attributes with the same name, in projects 1 and 2, and an epic
  attribute with that name in project 3.
\<close>

definition size_1 :: attr_def where
  "size_1 = \<lparr>attr_id = 1, attr_project = 1, attr_name = ''size'', attr_type = ''text''\<rparr>"

definition size_2 :: attr_def where
  "size_2 = \<lparr>attr_id = 2, attr_project = 2, attr_name = ''size'', attr_type = ''text''\<rparr>"

definition size_epic :: attr_def where
  "size_epic = \<lparr>attr_id = 1, attr_project = 3, attr_name = ''size'', attr_type = ''text''\<rparr>"

definition two_projects :: database where
  "two_projects = \<lparr>EpicCustomAttribute = [size_epic], UserStoryCustomAttribute = [size_1, size_2],
     TaskCustomAttribute = [], IssueCustomAttribute = []\<rparr>"

text \<open>
  An epic attribute and a user story attribute of type \<^verbatim>\<open>"est"\<close>, both in project 1,
  a mutation whose container is in project 1, a stored payload and an update that
  supplies an empty mapping.
\<close>

definition effort_epic :: attr_def where
  "effort_epic = \<lparr>attr_id = 1, attr_project = 1, attr_name = ''effort'', attr_type = ''est''\<rparr>"

definition effort_us :: attr_def where
  "effort_us = \<lparr>attr_id = 7, attr_project = 1, attr_name = ''effort'', attr_type = ''est''\<rparr>"

definition estimate_db :: database where
  "estimate_db = \<lparr>EpicCustomAttribute = [effort_epic], UserStoryCustomAttribute = [effort_us],
     TaskCustomAttribute = [], IssueCustomAttribute = []\<rparr>"

definition in_project_1 :: "json \<Rightarrow> values_attrs" where
  "in_project_1 v = \<lparr>attributes_values = Some v, attrs_container = Some \<lparr>container_project_id = 1\<rparr>\<rparr>"

definition stored_payload :: values_object where
  "stored_payload = \<lparr>object_attributes_values = JDict [(''9'', JStr ''x'')],
     object_container = \<lparr>container_project_id = 1\<rparr>\<rparr>"

definition empty_update :: values_attrs where
  "empty_update = \<lparr>attributes_values = Some (JDict []), attrs_container = None\<rparr>"

section \<open>Properties of the estimation normaliser\<close>

subsection \<open>Digits\<close>

lemma digit_char_numerals:
  "digit_char 0 = CHR ''0''" "digit_char 1 = CHR ''1''" "digit_char 2 = CHR ''2''"
  "digit_char 3 = CHR ''3''" "digit_char 4 = CHR ''4''" "digit_char 5 = CHR ''5''"
  "digit_char 6 = CHR ''6''" "digit_char 7 = CHR ''7''" "digit_char 8 = CHR ''8''"
  "digit_char 9 = CHR ''9''"
  by code_simp+

lemma is_digit_digit_char: "n < 10 \<Longrightarrow> is_digit (digit_char n)"
  by (simp add: is_digit_def digit_char_def)

lemma digit_val_digit_char: "n < 10 \<Longrightarrow> digit_val (digit_char n) = n"
  by (simp add: digit_val_def digit_char_def)

lemma unit_not_digit:
  "\<not> is_digit (CHR ''w'')" "\<not> is_digit (CHR ''d'')" "\<not> is_digit (CHR ''h'')"
  by (simp_all add: is_digit_def)

lemma all_digits_str_nat: "all_digits (str_nat n)"
proof (induction n rule: str_nat.induct)
  case (1 n)
  show ?case
  proof (cases "n < 10")
    case True
    then show ?thesis
      by (simp add: str_nat.simps [of n] all_digits_def is_digit_digit_char)
  next
    case False
    with 1 show ?thesis
      by (simp add: str_nat.simps [of n] all_digits_def is_digit_digit_char)
  qed
qed

lemma parse_digits_snoc: "parse_digits (ds @ [c]) = 10 * parse_digits ds + digit_val c"
  by (simp add: parse_digits_def)

lemma parse_digits_zero: "parse_digits (CHR ''0'' # ds) = parse_digits ds"
  by (simp add: parse_digits_def digit_val_def)

lemma parse_digits_str_nat: "parse_digits (str_nat n) = n"
proof (induction n rule: str_nat.induct)
  case (1 n)
  show ?case
  proof (cases "n < 10")
    case True
    then show ?thesis
      by (simp add: str_nat.simps [of n] parse_digits_def digit_val_digit_char)
  next
    case False
    with 1 show ?thesis
      by (simp add: str_nat.simps [of n] parse_digits_snoc digit_val_digit_char)
  qed
qed

lemma item_value_empty: "item_value [] = 0"
  by (simp add: item_value_def parse_digits_def digit_val_def)

lemma item_value_unit: "item_value (ds @ [u]) = parse_digits ds"
  by (simp add: item_value_def parse_digits_zero)

subsection \<open>Matching\<close>

lemma match_unit_Nil: "match_unit u [] = None"
  by (simp add: match_unit_def)

lemma match_unit_digits:
  assumes "all_digits ds" and "\<not> is_digit c"
  shows "match_unit u (ds @ c # rest) = (if c = u then Some (ds @ [u], rest) else None)"
  using assms by (simp add: match_unit_def all_digits_def list_all_iff)

lemma match_unit_SomeD:
  assumes "match_unit u s = Some (item, rest)"
  shows "\<exists>ds. all_digits ds \<and> item = ds @ [u] \<and> s = item @ rest"
proof -
  let ?ds = "takeWhile is_digit s"
  from assms have ne: "?ds \<noteq> []" and it: "item = ?ds @ [u]"
    and dr: "dropWhile is_digit s = u # rest"
    by (auto simp: match_unit_def Let_def split: list.splits if_splits)
  have "all_digits ?ds"
    using ne by (auto simp: all_digits_def list_all_iff dest: set_takeWhileD)
  moreover have "s = ?ds @ u # rest"
    using dr by (metis takeWhile_dropWhile_id)
  ultimately show ?thesis
    using it by auto
qed

lemma match_star_None: "match_unit u s = None \<Longrightarrow> match_star u item s = (item, s)"
  by (simp add: match_star.simps [of u item s])

lemma match_star_Some:
  "match_unit u s = Some (item', s') \<Longrightarrow> match_star u item s = match_star u item' s'"
  by (simp add: match_star.simps [of u item s])

lemma match_star_Nil: "match_star u item [] = (item, [])"
  by (simp add: match_star_None match_unit_Nil)

lemma match_star_other:
  "all_digits ds \<Longrightarrow> \<not> is_digit c \<Longrightarrow> c \<noteq> u \<Longrightarrow>
     match_star u item (ds @ c # rest) = (item, ds @ c # rest)"
  by (simp add: match_star_None match_unit_digits)

lemma match_star_unit:
  "all_digits ds \<Longrightarrow> \<not> is_digit u \<Longrightarrow>
     match_star u item (ds @ u # rest) = match_star u (ds @ [u]) rest"
  by (simp add: match_star_Some match_unit_digits)

lemma findall_first_duration:
  assumes "well_formed wo" and "well_formed do" and "well_formed ho"
  shows "findall_first (duration wo do ho) =
           (component wo (CHR ''w''), component do (CHR ''d''), component ho (CHR ''h''))"
proof (cases wo; cases "do"; cases ho)
qed (use assms in \<open>simp_all add: findall_first_def duration_def match_star_Nil match_star_other
      match_star_unit unit_not_digit\<close>)

lemma item_value_component: "item_value (component x u) = amount x"
  by (cases x) (simp_all add: item_value_empty item_value_unit)

subsection \<open>The carry loops in closed form\<close>

lemma carry_hours_eq: "carry_hours (d, h) = (d + h div 8, h mod 8)"
proof (induction "(d, h)" arbitrary: d h rule: carry_hours.induct)
  case (1 d h)
  show ?case
  proof (cases "h \<ge> 8")
    case True
    then have "carry_hours (d, h) = carry_hours (d + 1, h - 8)"
      by (simp add: carry_hours.simps [of d h])
    also have "\<dots> = (d + 1 + (h - 8) div 8, (h - 8) mod 8)"
      using 1 True by simp
    also have "\<dots> = (d + h div 8, h mod 8)"
      using True by (simp add: le_div_geq le_mod_geq)
    finally show ?thesis .
  next
    case False
    then show ?thesis by (simp add: carry_hours.simps [of d h])
  qed
qed

lemma carry_days_eq: "carry_days (w, d) = (w + d div 5, d mod 5)"
proof (induction "(w, d)" arbitrary: w d rule: carry_days.induct)
  case (1 w d)
  show ?case
  proof (cases "d \<ge> 5")
    case True
    then have "carry_days (w, d) = carry_days (w + 1, d - 5)"
      by (simp add: carry_days.simps [of w d])
    also have "\<dots> = (w + 1 + (d - 5) div 5, (d - 5) mod 5)"
      using 1 True by simp
    also have "\<dots> = (w + d div 5, d mod 5)"
      using True by (simp add: le_div_geq le_mod_geq)
    finally show ?thesis .
  next
    case False
    then show ?thesis by (simp add: carry_days.simps [of w d])
  qed
qed

lemma normalize_estimation_eq:
  "normalize_estimation v =
     (case findall_first v of (gw, gd, gh) \<Rightarrow>
        render (item_value gw + (item_value gd + item_value gh div 8) div 5)
               ((item_value gd + item_value gh div 8) mod 5)
               (item_value gh mod 8))"
  by (simp add: normalize_estimation_def carry_hours_eq carry_days_eq split: prod.splits)

lemma normalize_estimation_duration:
  assumes "well_formed wo" and "well_formed do" and "well_formed ho"
  shows "normalize_estimation (duration wo do ho) =
           render (amount wo + (amount do + amount ho div 8) div 5)
                  ((amount do + amount ho div 8) mod 5)
                  (amount ho mod 8)"
  by (simp add: normalize_estimation_eq findall_first_duration [OF assms] item_value_component)

subsection \<open>Rendered durations\<close>

lemma render_duration: "render w d h = duration (nonzero w) (nonzero d) (nonzero h)"
  by (simp add: render_def duration_def nonzero_def)

lemma well_formed_nonzero: "well_formed (nonzero n)"
  by (simp add: nonzero_def all_digits_str_nat)

lemma amount_nonzero: "amount (nonzero n) = n"
  by (simp add: nonzero_def parse_digits_str_nat)

lemma normalize_estimation_render:
  assumes "d < 5" and "h < 8"
  shows "normalize_estimation (render w d h) = render w d h"
  using assms
  by (simp add: render_duration [of w d h] normalize_estimation_duration well_formed_nonzero
      amount_nonzero)

lemma normalize_estimation_canonical:
  "\<exists>w d h. normalize_estimation v = render w d h \<and> d < 5 \<and> h < 8"
proof -
  obtain gw gd gh where g: "findall_first v = (gw, gd, gh)"
    by (cases "findall_first v") auto
  let ?h = "item_value gh" and ?d = "item_value gd"
  have "normalize_estimation v =
          render (item_value gw + (?d + ?h div 8) div 5) ((?d + ?h div 8) mod 5) (?h mod 8)"
    by (simp add: normalize_estimation_eq g)
  moreover have "(?d + ?h div 8) mod 5 < 5" and "?h mod 8 < 8"
    by simp_all
  ultimately show ?thesis by blast
qed

subsection \<open>The grammar and its recogniser\<close>

lemma strip_component_other:
  "all_digits ds \<Longrightarrow> \<not> is_digit c \<Longrightarrow> c \<noteq> u \<Longrightarrow>
     strip_component u (ds @ c # rest) = ds @ c # rest"
  by (simp add: strip_component_def match_unit_digits)

lemma strip_component_unit:
  "all_digits ds \<Longrightarrow> \<not> is_digit u \<Longrightarrow> strip_component u (ds @ u # rest) = rest"
  by (simp add: strip_component_def match_unit_digits)

lemma strip_component_Nil: "strip_component u [] = []"
  by (simp add: strip_component_def match_unit_Nil)

lemma duration_grammar_duration:
  assumes "well_formed wo" and "well_formed do" and "well_formed ho"
  shows "duration_grammar (duration wo do ho)"
proof (cases wo; cases "do"; cases ho)
qed (use assms in \<open>simp_all add: duration_grammar_def duration_def strip_component_Nil
      strip_component_other strip_component_unit unit_not_digit\<close>)

lemma strip_component_cases:
  "\<exists>x. well_formed x \<and> s = component x u @ strip_component u s"
proof (cases "match_unit u s")
  case None
  then have "well_formed None \<and> s = component None u @ strip_component u s"
    by (simp add: strip_component_def)
  then show ?thesis by blast
next
  case (Some p)
  obtain item rest where p: "p = (item, rest)" by (cases p)
  from match_unit_SomeD [of u s item rest] Some p
  obtain ds where "all_digits ds" and "item = ds @ [u]" and "s = item @ rest"
    by auto
  then have "well_formed (Some ds) \<and> s = component (Some ds) u @ strip_component u s"
    using Some p by (simp add: strip_component_def)
  then show ?thesis by blast
qed

lemma duration_grammar_imp:
  assumes "duration_grammar s"
  shows "\<exists>wo do ho. well_formed wo \<and> well_formed do \<and> well_formed ho \<and> s = duration wo do ho"
proof -
  let ?s1 = "strip_component (CHR ''w'') s"
  let ?s2 = "strip_component (CHR ''d'') ?s1"
  obtain wo where w: "well_formed wo" "s = component wo (CHR ''w'') @ ?s1"
    using strip_component_cases by blast
  obtain d' where d: "well_formed d'" "?s1 = component d' (CHR ''d'') @ ?s2"
    using strip_component_cases by blast
  obtain ho where h: "well_formed ho"
    "?s2 = component ho (CHR ''h'') @ strip_component (CHR ''h'') ?s2"
    using strip_component_cases by blast
  from assms have "strip_component (CHR ''h'') ?s2 = []"
    by (simp add: duration_grammar_def)
  with h have "?s2 = component ho (CHR ''h'')" by simp
  with w d have "s = duration wo d' ho"
    by (simp add: duration_def)
  with w d h show ?thesis by blast
qed

subsection \<open>Claims about the normaliser\<close>

lemma normalize_estimation_examples:
  "normalize_estimation ''0h'' = ''''"
  "normalize_estimation ''9h'' = ''1d1h''"
  "normalize_estimation ''5d'' = ''1w''"
  "normalize_estimation ''40h'' = ''1w''"
  by code_simp+

lemma digits_examples:
  "all_digits ''2''" "all_digits ''7''" "all_digits ''13''"
  "parse_digits ''2'' = 2" "parse_digits ''7'' = 7" "parse_digits ''13'' = 13"
  "str_nat (Suc (Suc (Suc 0))) = ''3''" "str_nat 3 = ''3''" "str_nat 5 = ''5''"
  by code_simp+

text \<open>
  Claim C2. On a string of the grammar the normaliser reads the three components, a
  missing one as 0, carries every 8 hours into a day and every 5 days into a week, and
  writes the components that are not zero in the order weeks, days, hours. The two
  loops leave \<open>h mod 8\<close> hours and \<open>(d + h div 8) mod 5\<close> days. The four examples of the
  specification hold.
\<close>

theorem estimation_carry_and_render:
  assumes "well_formed wo" and "well_formed do" and "well_formed ho"
  shows "validate_estimation (JStr (duration wo do ho)) =
           Inr (let h = amount ho;
                    d = amount do + h div 8;
                    w = amount wo + d div 5
                in (if w > 0 then str_nat w @ ''w'' else '''') @
                   (if d mod 5 > 0 then str_nat (d mod 5) @ ''d'' else '''') @
                   (if h mod 8 > 0 then str_nat (h mod 8) @ ''h'' else ''''))
         \<and> validate_estimation (JStr ''0h'') = Inr ''''
         \<and> validate_estimation (JStr ''9h'') = Inr ''1d1h''
         \<and> validate_estimation (JStr ''5d'') = Inr ''1w''
         \<and> validate_estimation (JStr ''40h'') = Inr ''1w''"
  using normalize_estimation_duration [OF assms]
  by (simp add: normalize_estimation_examples render_def Let_def)

theorem estimation_carry_and_render_witness:
  "well_formed (Some ''2'') \<and> well_formed (Some ''7'') \<and> well_formed (Some ''13'')
   \<and> validate_estimation (JStr ''2w7d13h'') = Inr ''3w3d5h''"
  using estimation_carry_and_render [of "Some ''2''" "Some ''7''" "Some ''13''"]
  by (simp add: digits_examples duration_def)

text \<open>
  Claim C3 as stated (a string outside the grammar makes the normaliser fail) does not
  hold: \<^verbatim>\<open>"abc"\<close> is outside the grammar and the normaliser returns the empty string.
\<close>

theorem malformed_estimation_counterexample:
  "\<not> duration_grammar ''abc'' \<and> validate_estimation (JStr ''abc'') = Inr ''''"
  by code_simp

text \<open>
  Claim C3, amended. The normaliser has no failing path on a string: for every string
  outside the grammar it returns a normal form, a rendered duration with fewer than
  5 days and fewer than 8 hours (that of the groups it could match at the front of
  the string).
\<close>

theorem malformed_estimation_returns:
  assumes "\<not> duration_grammar s"
  shows "\<exists>w d h. validate_estimation (JStr s) = Inr (render w d h) \<and> d < 5 \<and> h < 8"
  using normalize_estimation_canonical [of s] by simp

theorem malformed_estimation_returns_witness:
  "\<not> duration_grammar ''-5h''
   \<and> (\<exists>w d h. validate_estimation (JStr ''-5h'') = Inr (render w d h) \<and> d < 5 \<and> h < 8)
   \<and> validate_estimation (JStr ''-5h'') = Inr ''''"
proof -
  have g: "\<not> duration_grammar ''-5h''" by code_simp
  have v: "validate_estimation (JStr ''-5h'') = Inr ''''" by code_simp
  from malformed_estimation_returns [OF g] g v show ?thesis by blast
qed

text \<open>
  Claim C4. The normaliser is idempotent: it returns a string on every string, and
  returns that string unchanged when applied to it. This holds for every input string,
  so for every string of the grammar.
\<close>

theorem estimation_idempotent:
  "\<exists>r. validate_estimation (JStr s) = Inr r \<and> validate_estimation (JStr r) = Inr r"
proof -
  obtain w d h where "normalize_estimation s = render w d h" and "d < 5" and "h < 8"
    using normalize_estimation_canonical by blast
  then show ?thesis by (simp add: normalize_estimation_render)
qed

section \<open>Properties of the uniqueness check\<close>

lemma filter_exclude_empty:
  "(filter_exclude model data_project data_name data_id \<noteq> []) =
     (\<exists>r \<in> set model. Some (attr_project r) = data_project \<and> Some (attr_name r) = data_name
                       \<and> Some (attr_id r) \<noteq> data_id)"
  by (auto simp: filter_exclude_def filter_empty_conv)

lemma validate_integrity_eq:
  "validate_integrity_between_project_and_name kind object db attrs =
     (case resolve_fields object attrs of (data_id, data_name, data_project) \<Rightarrow>
        if (\<exists>r \<in> set (custom_attribute_model kind db).
              Some (attr_project r) = data_project \<and> Some (attr_name r) = data_name
              \<and> Some (attr_id r) \<noteq> data_id)
        then Inl DuplicateName else Inr attrs)"
proof -
  obtain data_id data_name data_project
    where r: "resolve_fields object attrs = (data_id, data_name, data_project)"
    by (cases "resolve_fields object attrs") auto
  show ?thesis
    unfolding validate_integrity_between_project_and_name_def r Let_def prod.case
    using filter_exclude_empty [of "custom_attribute_model kind db" data_project data_name data_id]
    by (cases "filter_exclude (custom_attribute_model kind db) data_project data_name data_id = []")
      simp_all
qed

lemma rename_to_own_name:
  assumes "obj \<in> set (custom_attribute_model kind db)"
    and "unique_names (custom_attribute_model kind db)"
    and "attrs_id attrs = None" and "attrs_name attrs = Some (attr_name obj)"
    and "attrs_project attrs = None"
  shows "validate_integrity_between_project_and_name kind (Some obj) db attrs = Inr attrs"
proof -
  have r: "resolve_fields (Some obj) attrs =
             (Some (attr_id obj), Some (attr_name obj), Some (attr_project obj))"
    using assms(3-5) by (simp add: resolve_fields_def or_int_def or_str_def or_instance_def)
  from assms(2) have "\<forall>a \<in> set (custom_attribute_model kind db).
      \<forall>b \<in> set (custom_attribute_model kind db).
        attr_project a = attr_project b \<and> attr_name a = attr_name b \<longrightarrow> attr_id a = attr_id b"
    unfolding unique_names_def list_all_iff .
  with assms(1) have "\<forall>a \<in> set (custom_attribute_model kind db).
      attr_project a = attr_project obj \<and> attr_name a = attr_name obj \<longrightarrow> attr_id a = attr_id obj"
    by blast
  then have "\<not> (\<exists>r \<in> set (custom_attribute_model kind db).
              Some (attr_project r) = Some (attr_project obj) \<and> Some (attr_name r) = Some (attr_name obj)
              \<and> Some (attr_id r) \<noteq> Some (attr_id obj))"
    by blast
  then show ?thesis
    unfolding validate_integrity_eq r prod.case by (rule if_not_P)
qed


lemma create_in_other_project:
  assumes "attrs_name attrs = Some n" and "attrs_project attrs = Some p"
    and "\<forall>r \<in> set (custom_attribute_model kind db). attr_name r = n \<longrightarrow> attr_project r \<noteq> p"
  shows "validate_integrity_between_project_and_name kind None db attrs = Inr attrs"
proof -
  have r: "resolve_fields None attrs = (attrs_id attrs, Some n, Some p)"
    using assms(1,2) by (simp add: resolve_fields_def)
  from assms(3) have "\<not> (\<exists>r \<in> set (custom_attribute_model kind db).
              Some (attr_project r) = Some p \<and> Some (attr_name r) = Some n
              \<and> Some (attr_id r) \<noteq> attrs_id attrs)"
    by auto
  then show ?thesis
    unfolding validate_integrity_eq r prod.case by (rule if_not_P)
qed

text \<open>
  Claim C1. The table searched is that of the entity kind of the validator: the epic
  definitions for an epic definition, the user story definitions for a user story
  definition, and so on. With the resolved triple \<open>(data_id, data_name, data_project)\<close>,
  the check fails with \<open>DuplicateName\<close> exactly when a row of that table has that project
  and that name and another id; otherwise it returns \<^verbatim>\<open>attrs\<close>. Renaming a stored
  definition to the name it has succeeds (the table obeys the invariant of the data
  model), and so does creating a definition whose name is used in other projects only.
\<close>

theorem uniqueness_check:
  "(let table =
          (case kind of
             Epic \<Rightarrow> EpicCustomAttribute db
           | UserStory \<Rightarrow> UserStoryCustomAttribute db
           | Task \<Rightarrow> TaskCustomAttribute db
           | Issue \<Rightarrow> IssueCustomAttribute db)
    in validate_integrity_between_project_and_name kind object db attrs =
         (case resolve_fields object attrs of (data_id, data_name, data_project) \<Rightarrow>
            if (\<exists>r \<in> set table.
                  Some (attr_project r) = data_project \<and> Some (attr_name r) = data_name
                  \<and> Some (attr_id r) \<noteq> data_id)
            then Inl DuplicateName else Inr attrs)
       \<and> (obj \<in> set table \<and> unique_names table
            \<longrightarrow> validate_integrity_between_project_and_name kind (Some obj) db
                  \<lparr>attrs_id = None, attrs_name = Some (attr_name obj), attrs_project = None\<rparr>
                = Inr \<lparr>attrs_id = None, attrs_name = Some (attr_name obj), attrs_project = None\<rparr>)
       \<and> ((\<forall>r \<in> set table. attr_name r = n \<longrightarrow> attr_project r \<noteq> p)
            \<longrightarrow> validate_integrity_between_project_and_name kind None db
                  \<lparr>attrs_id = None, attrs_name = Some n, attrs_project = Some p\<rparr>
                = Inr \<lparr>attrs_id = None, attrs_name = Some n, attrs_project = Some p\<rparr>))"
proof -
  have t: "(case kind of
              Epic \<Rightarrow> EpicCustomAttribute db
            | UserStory \<Rightarrow> UserStoryCustomAttribute db
            | Task \<Rightarrow> TaskCustomAttribute db
            | Issue \<Rightarrow> IssueCustomAttribute db) = custom_attribute_model kind db"
    by (cases kind) simp_all
  show ?thesis
    unfolding Let_def t
  proof (intro conjI impI)
    show "validate_integrity_between_project_and_name kind object db attrs =
       (case resolve_fields object attrs of (data_id, data_name, data_project) \<Rightarrow>
          if (\<exists>r \<in> set (custom_attribute_model kind db).
                Some (attr_project r) = data_project \<and> Some (attr_name r) = data_name
                \<and> Some (attr_id r) \<noteq> data_id)
          then Inl DuplicateName else Inr attrs)"
      by (rule validate_integrity_eq)
  next
    assume "obj \<in> set (custom_attribute_model kind db)
              \<and> unique_names (custom_attribute_model kind db)"
    then show "validate_integrity_between_project_and_name kind (Some obj) db
                \<lparr>attrs_id = None, attrs_name = Some (attr_name obj), attrs_project = None\<rparr>
              = Inr \<lparr>attrs_id = None, attrs_name = Some (attr_name obj), attrs_project = None\<rparr>"
      by (intro rename_to_own_name) simp_all
  next
    assume "\<forall>r \<in> set (custom_attribute_model kind db). attr_name r = n \<longrightarrow> attr_project r \<noteq> p"
    then show "validate_integrity_between_project_and_name kind None db
                \<lparr>attrs_id = None, attrs_name = Some n, attrs_project = Some p\<rparr>
              = Inr \<lparr>attrs_id = None, attrs_name = Some n, attrs_project = Some p\<rparr>"
      by (intro create_in_other_project [of _ n p]) simp_all
  qed
qed

text \<open>
  The user story table holds the name \<^verbatim>\<open>size\<close> in projects 1 and 2, the epic table in
  project 3. A user story definition of that name cannot be created in project 1 and
  can be in project 3; for an epic definition it is the other way round.
\<close>

theorem uniqueness_check_witness:
  "size_1 \<in> set (UserStoryCustomAttribute two_projects)
   \<and> validate_integrity_between_project_and_name UserStory None two_projects
        \<lparr>attrs_id = None, attrs_name = Some ''size'', attrs_project = Some 1\<rparr> = Inl DuplicateName
   \<and> validate_integrity_between_project_and_name Epic None two_projects
        \<lparr>attrs_id = None, attrs_name = Some ''size'', attrs_project = Some 1\<rparr>
       = Inr \<lparr>attrs_id = None, attrs_name = Some ''size'', attrs_project = Some 1\<rparr>
   \<and> validate_integrity_between_project_and_name UserStory (Some size_1) two_projects
        \<lparr>attrs_id = None, attrs_name = Some ''size'', attrs_project = None\<rparr>
       = Inr \<lparr>attrs_id = None, attrs_name = Some ''size'', attrs_project = None\<rparr>
   \<and> validate_integrity_between_project_and_name UserStory None two_projects
        \<lparr>attrs_id = None, attrs_name = Some ''size'', attrs_project = Some 3\<rparr>
       = Inr \<lparr>attrs_id = None, attrs_name = Some ''size'', attrs_project = Some 3\<rparr>
   \<and> validate_integrity_between_project_and_name Epic None two_projects
        \<lparr>attrs_id = None, attrs_name = Some ''size'', attrs_project = Some 3\<rparr> = Inl DuplicateName"
proof -
  let ?create = "\<lambda>p. \<lparr>attrs_id = None, attrs_name = Some ''size'', attrs_project = Some p\<rparr>"
  have tU: "UserStoryCustomAttribute two_projects = [size_1, size_2]"
    and tE: "EpicCustomAttribute two_projects = [size_epic]"
    by (simp_all add: two_projects_def)
  have n1: "attr_name size_1 = ''size''"
    by (simp add: size_1_def)
  have r: "resolve_fields None (?create p) = (None, Some ''size'', Some p)" for p
    by (simp add: resolve_fields_def)
  note uU = uniqueness_check [where kind = UserStory and db = two_projects and object = None
      and attrs = "?create 1" and obj = size_1 and n = "''size''" and p = 3,
      unfolded Let_def entity_kind.case tU r prod.case n1]
  note uE = uniqueness_check [where kind = Epic and db = two_projects and object = None
      and attrs = "?create 3" and obj = size_epic and n = "''size''" and p = 1,
      unfolded Let_def entity_kind.case tE r prod.case]
  have h1: "size_1 \<in> set [size_1, size_2]"
    by simp
  have h2: "unique_names [size_1, size_2]"
    by (simp add: unique_names_def size_1_def size_2_def)
  have h3: "\<forall>r \<in> set [size_1, size_2]. attr_name r = ''size'' \<longrightarrow> attr_project r \<noteq> 3"
    by (simp add: size_1_def size_2_def)
  have h4: "\<forall>r \<in> set [size_epic]. attr_name r = ''size'' \<longrightarrow> attr_project r \<noteq> 1"
    by (simp add: size_epic_def)
  have eU: "\<exists>r \<in> set [size_1, size_2]. Some (attr_project r) = Some 1
              \<and> Some (attr_name r) = Some ''size'' \<and> Some (attr_id r) \<noteq> None"
    by (simp add: size_1_def)
  have eE: "\<exists>r \<in> set [size_epic]. Some (attr_project r) = Some 3
              \<and> Some (attr_name r) = Some ''size'' \<and> Some (attr_id r) \<noteq> None"
    by (simp add: size_epic_def)
  from uU eU have "validate_integrity_between_project_and_name UserStory None two_projects
        (?create 1) = Inl DuplicateName"
    by simp
  moreover from uE h4 have "validate_integrity_between_project_and_name Epic None two_projects
        (?create 1) = Inr (?create 1)"
    by blast
  moreover from uU h1 h2 have "validate_integrity_between_project_and_name UserStory (Some size_1)
        two_projects \<lparr>attrs_id = None, attrs_name = Some ''size'', attrs_project = None\<rparr>
       = Inr \<lparr>attrs_id = None, attrs_name = Some ''size'', attrs_project = None\<rparr>"
    by blast
  moreover from uU h3 have "validate_integrity_between_project_and_name UserStory None two_projects
        (?create 3) = Inr (?create 3)"
    by blast
  moreover from uE eE have "validate_integrity_between_project_and_name Epic None two_projects
        (?create 3) = Inl DuplicateName"
    by simp
  ultimately show ?thesis
    using h1 tU by simp
qed

text \<open>
  Claim C8 as stated does not hold: a name that is present in the mutation but empty
  resolves to the name of the existing record, not to the proposed value.
\<close>

theorem resolve_fields_counterexample:
  "attrs_name \<lparr>attrs_id = None, attrs_name = Some '''', attrs_project = None\<rparr> = Some ''''
   \<and> resolve_fields
        (Some \<lparr>attr_id = 1, attr_project = 1, attr_name = ''size'', attr_type = ''text''\<rparr>)
        \<lparr>attrs_id = None, attrs_name = Some '''', attrs_project = None\<rparr>
       = (Some 1, Some ''size'', Some 1)
   \<and> Some ''size'' \<noteq> Some ''''"
  by (simp add: resolve_fields_def or_int_def or_str_def or_instance_def)

text \<open>
  Claim C8, amended. With an existing record, a field that is absent or falsy (the id 0,
  the empty name) resolves to the value of the existing record and any other field to
  the proposed value; with no existing record the proposed values are used as they are.
\<close>

theorem resolve_fields_truthy:
  "resolve_fields None attrs = (attrs_id attrs, attrs_name attrs, attrs_project attrs)
   \<and> resolve_fields (Some obj) attrs =
       (if attrs_id attrs = None \<or> attrs_id attrs = Some 0 then Some (attr_id obj) else attrs_id attrs,
        if attrs_name attrs = None \<or> attrs_name attrs = Some '''' then Some (attr_name obj)
        else attrs_name attrs,
        if attrs_project attrs = None then Some (attr_project obj) else attrs_project attrs)"
  by (auto simp: resolve_fields_def or_int_def or_str_def or_instance_def split: option.splits)

section \<open>Properties of the values payload validator\<close>

subsection \<open>The normalisation loop\<close>

lemma normalize_dict_keys:
  "normalize_dict ids keys d = Inr d' \<Longrightarrow> map fst d' = map fst d"
proof (induction keys arbitrary: d)
  case Nil
  then show ?case by simp
next
  case (Cons key keys)
  from Cons.prems obtain k where k: "int_of_str key = Some k"
    by (auto split: option.splits)
  show ?case
  proof (cases "k \<in> set ids")
    case False
    with Cons.prems k have "normalize_dict ids keys d = Inr d'" by simp
    then show ?thesis by (rule Cons.IH)
  next
    case True
    with Cons.prems k obtain v s where v: "map_of d key = Some v"
      and s: "validate_estimation v = Inr s"
      and n: "normalize_dict ids keys (AList.update key (JStr s) d) = Inr d'"
      by (auto split: option.splits sum.splits)
    from v have "key \<in> set (map fst d)"
      by (metis map_of_eq_None_iff option.distinct(1) set_map)
    then have "map fst (AList.update key (JStr s) d) = map fst d"
      by (simp add: update_keys)
    with Cons.IH [OF n] show ?thesis by simp
  qed
qed

lemma normalize_dict_numeric:
  "normalize_dict ids keys d = Inr d' \<Longrightarrow> list_all (\<lambda>k. int_of_str k \<noteq> None) keys"
proof (induction keys arbitrary: d)
  case Nil
  then show ?case by simp
next
  case (Cons key keys)
  from Cons.prems obtain k where k: "int_of_str key = Some k"
    by (auto split: option.splits)
  show ?case
  proof (cases "k \<in> set ids")
    case False
    with Cons.prems k have "normalize_dict ids keys d = Inr d'" by simp
    from Cons.IH [OF this] k show ?thesis by simp
  next
    case True
    with Cons.prems k obtain s where
      "normalize_dict ids keys (AList.update key (JStr s) d) = Inr d'"
      by (auto split: option.splits sum.splits)
    from Cons.IH [OF this] k show ?thesis by simp
  qed
qed

subsection \<open>The checks after the loop\<close>

lemma validate_checks:
  assumes "attributes_values attrs = Some v"
    and "normalize_attributes (estimate_field_ids db) v = Inr v'"
    and "effective_values object v' = JDict d"
  shows "validate_attributes_values kind object db attrs =
           (case count_in (custom_attribute_model kind db) (effective_project_id object attrs) (map fst d) of
              Inl e \<Rightarrow> ([Query_all UserStory], Inl e)
            | Inr n \<Rightarrow>
                ([Query_all UserStory, Query_count kind (effective_project_id object attrs) (map fst d)],
                 if n \<noteq> length d then Inl UnknownAttributeReference
                 else Inr (attrs\<lparr>attributes_values := Some v'\<rparr>)))"
  using assms unfolding validate_attributes_values_def
  by (simp add: Let_def split: sum.splits)

lemma validate_not_mapping:
  assumes "attributes_values attrs = Some v"
    and "normalize_attributes (estimate_field_ids db) v = Inr v'"
    and "\<nexists>d. effective_values object v' = JDict d"
  shows "validate_attributes_values kind object db attrs = ([Query_all UserStory], Inl InvalidPayloadShape)"
  using assms unfolding validate_attributes_values_def
  by (cases "effective_values object v'") (simp_all add: Let_def)

lemma count_in_numeric:
  assumes "list_all (\<lambda>k. int_of_str k \<noteq> None) values_ids"
  shows "count_in model project_id values_ids =
           Inr (length (filter (\<lambda>r. Some (attr_project r) = project_id
                                      \<and> Some (attr_id r) \<in> set (map int_of_str values_ids)) model))"
  using assms by (simp add: count_in_def)

lemma validate_supplied_mapping:
  assumes a: "attributes_values attrs = Some (JDict d)"
    and ne: "object = None \<or> d \<noteq> []"
    and n: "normalize_attributes (estimate_field_ids db) (JDict d) = Inr v'"
  shows "validate_attributes_values kind object db attrs =
           ([Query_all UserStory, Query_count kind (effective_project_id object attrs) (map fst d)],
            if length (filter (\<lambda>r. Some (attr_project r) = effective_project_id object attrs
                                     \<and> Some (attr_id r) \<in> set (map int_of_str (map fst d)))
                         (custom_attribute_model kind db)) \<noteq> length d
            then Inl UnknownAttributeReference
            else Inr (attrs\<lparr>attributes_values := Some v'\<rparr>))"
proof -
  from n obtain d' where d': "normalize_dict (estimate_field_ids db) (map fst d) d = Inr d'"
    and v': "v' = JDict d'"
    by (auto split: sum.splits)
  have keys: "map fst d' = map fst d"
    using d' by (rule normalize_dict_keys)
  then have len: "length d' = length d"
    by (metis length_map)
  have "d' \<noteq> []" if "d \<noteq> []"
    using that len by auto
  with ne have e: "effective_values object v' = JDict d'"
    by (auto simp: effective_values_def v' split: option.splits)
  have c: "list_all (\<lambda>k. int_of_str k \<noteq> None) (map fst d)"
    using d' by (rule normalize_dict_numeric)
  show ?thesis
    unfolding validate_checks [OF a n e] keys len count_in_numeric [OF c] by simp
qed

subsection \<open>Claims about the values payload validator\<close>

text \<open>
  Claim C5, at a payload with a key that is not a number. The claim expects
  \<open>UnknownAttributeReference\<close>; the code raises \<^verbatim>\<open>ValueError\<close> from \<^verbatim>\<open>int(key)\<close> in the
  normalisation loop, before the referential check. A numeric key that names no
  definition of the project gets \<open>UnknownAttributeReference\<close>, as the claim says.
\<close>

theorem non_numeric_key_raises:
  "validate_attributes_values UserStory None estimate_db (in_project_1 (JDict [(''abc'', JStr ''x'')]))
     = ([Query_all UserStory], Inl ValueError)
   \<and> validate_attributes_values UserStory None estimate_db (in_project_1 (JDict [(''8'', JStr ''x'')]))
     = ([Query_all UserStory, Query_count UserStory (Some 1) [''8'']], Inl UnknownAttributeReference)"
  by code_simp

text \<open>
  Claim C6, at an epic payload. The epic attribute 1 has type \<^verbatim>\<open>"est"\<close>, and the value
  \<^verbatim>\<open>"13h"\<close> under key \<^verbatim>\<open>"1"\<close> is returned as it came: the loop looks the key up among the
  user story attributes, for every kind of validator. The user story validator, on a
  user story attribute, rewrites \<^verbatim>\<open>"13h"\<close> to \<^verbatim>\<open>"1d5h"\<close>.
\<close>

theorem epic_estimation_not_normalized:
  "validate_attributes_values Epic None estimate_db (in_project_1 (JDict [(''1'', JStr ''13h'')]))
     = ([Query_all UserStory, Query_count Epic (Some 1) [''1'']],
        Inr (in_project_1 (JDict [(''1'', JStr ''13h'')])))
   \<and> validate_attributes_values UserStory None estimate_db (in_project_1 (JDict [(''7'', JStr ''13h'')]))
     = ([Query_all UserStory, Query_count UserStory (Some 1) [''7'']],
        Inr (in_project_1 (JDict [(''7'', JStr ''1d5h'')])))"
  by code_simp

text \<open>
  Claim C7, at payloads that are not mappings. The number 5 makes the loop raise
  \<^verbatim>\<open>TypeError\<close>, and the type check is never reached; the list \<^verbatim>\<open>[5]\<close> reaches the type
  check and fails with \<open>InvalidPayloadShape\<close>. In both cases the query for the user
  story attributes has been sent before.
\<close>

theorem non_mapping_payload:
  "validate_attributes_values UserStory None estimate_db (in_project_1 (JNum 5))
     = ([Query_all UserStory], Inl TypeError)
   \<and> validate_attributes_values UserStory None estimate_db (in_project_1 (JList [JNum 5]))
     = ([Query_all UserStory], Inl InvalidPayloadShape)"
  by code_simp

text \<open>
  Claim C9 as stated does not hold for every mapping: when the update supplies an empty
  mapping and a payload is stored, the loop leaves the empty mapping as it is, but the
  count query of the referential check carries the key of the stored mapping, not the
  (empty) key list of the supplied one.
\<close>

theorem referential_keys_counterexample:
  "attributes_values empty_update = Some (JDict [])
   \<and> normalize_attributes (estimate_field_ids estimate_db) (JDict []) = Inr (JDict [])
   \<and> fst (validate_attributes_values UserStory (Some stored_payload) estimate_db empty_update)
       = [Query_all UserStory, Query_count UserStory (Some 1) [''9'']]
   \<and> [''9''] \<noteq> map fst ([] :: (string \<times> json) list)"
  by code_simp

text \<open>
  Claim C9, amended. The normalisation loop on a mapping returns a mapping with the
  same keys in the same order. When the supplied mapping is the effective one (it is
  not empty, or there is no stored payload), the count query of the referential check
  carries the keys the mapping came with.
\<close>

theorem normalization_preserves_keys:
  assumes "normalize_attributes ids (JDict d) = Inr v"
  shows "(\<exists>d'. v = JDict d' \<and> map fst d' = map fst d)
         \<and> (ids = estimate_field_ids db \<and> attributes_values attrs = Some (JDict d)
              \<and> (object = None \<or> d \<noteq> [])
            \<longrightarrow> fst (validate_attributes_values kind object db attrs)
                  = [Query_all UserStory,
                     Query_count kind (effective_project_id object attrs) (map fst d)])"
proof (intro conjI impI)
  from assms obtain d' where d': "normalize_dict ids (map fst d) d = Inr d'"
    and v: "v = JDict d'"
    by (auto split: sum.splits)
  from normalize_dict_keys [OF d'] v show "\<exists>d'. v = JDict d' \<and> map fst d' = map fst d"
    by simp
next
  assume h: "ids = estimate_field_ids db \<and> attributes_values attrs = Some (JDict d)
              \<and> (object = None \<or> d \<noteq> [])"
  with assms have "normalize_attributes (estimate_field_ids db) (JDict d) = Inr v"
    by simp
  from validate_supplied_mapping [OF _ _ this, of attrs object kind] h
  show "fst (validate_attributes_values kind object db attrs)
          = [Query_all UserStory, Query_count kind (effective_project_id object attrs) (map fst d)]"
    by simp
qed

theorem normalization_preserves_keys_witness:
  "normalize_attributes [7] (JDict [(''7'', JStr ''13h''), (''8'', JStr ''13h'')])
     = Inr (JDict [(''7'', JStr ''1d5h''), (''8'', JStr ''13h'')])
   \<and> [7] = estimate_field_ids estimate_db
   \<and> map fst [(''7'', JStr ''1d5h''), (''8'', JStr ''13h'')] = [''7'', ''8'']
   \<and> fst (validate_attributes_values UserStory None estimate_db
             (in_project_1 (JDict [(''7'', JStr ''13h''), (''8'', JStr ''13h'')])))
       = [Query_all UserStory, Query_count UserStory (Some 1) [''7'', ''8'']]"
proof -
  let ?d = "[(''7'', JStr ''13h''), (''8'', JStr ''13h'')]"
  have e: "normalize_attributes [7] (JDict ?d)
             = Inr (JDict [(''7'', JStr ''1d5h''), (''8'', JStr ''13h'')])"
    by code_simp
  have i: "[7] = estimate_field_ids estimate_db"
    by code_simp
  have a: "attributes_values (in_project_1 (JDict ?d)) = Some (JDict ?d)"
    by (simp add: in_project_1_def)
  have p: "effective_project_id None (in_project_1 (JDict ?d)) = Some 1"
    by (simp add: effective_project_id_def in_project_1_def)
  from normalization_preserves_keys [OF e, of estimate_db "in_project_1 (JDict ?d)" None UserStory]
    i a
  have "fst (validate_attributes_values UserStory None estimate_db (in_project_1 (JDict ?d)))
          = [Query_all UserStory, Query_count UserStory (Some 1) (map fst ?d)]"
    unfolding p by blast
  with e i show ?thesis by simp
qed

text \<open>
  Claim C10. When the update supplies an empty mapping and a payload is stored, the
  type check and the referential check are those of the stored mapping: a stored value
  that is not a mapping fails with \<open>InvalidPayloadShape\<close>, and otherwise the keys of the
  stored mapping are counted. The empty mapping is falsy, and the fallback on line 128
  is taken for every falsy value.
\<close>

theorem empty_mapping_falls_back:
  assumes "attributes_values attrs = Some (JDict [])"
  shows "validate_attributes_values kind (Some obj) db attrs =
     (case object_attributes_values obj of
        JDict d \<Rightarrow>
          (case count_in (custom_attribute_model kind db) (effective_project_id (Some obj) attrs) (map fst d) of
             Inl e \<Rightarrow> ([Query_all UserStory], Inl e)
           | Inr n \<Rightarrow>
               ([Query_all UserStory,
                 Query_count kind (effective_project_id (Some obj) attrs) (map fst d)],
                if n \<noteq> length d then Inl UnknownAttributeReference else Inr attrs))
      | _ \<Rightarrow> ([Query_all UserStory], Inl InvalidPayloadShape))"
proof -
  have n: "normalize_attributes (estimate_field_ids db) (JDict []) = Inr (JDict [])"
    by simp
  have e: "effective_values (Some obj) (JDict []) = object_attributes_values obj"
    by (simp add: effective_values_def)
  have a: "attrs\<lparr>attributes_values := Some (JDict [])\<rparr> = attrs"
    using assms by simp
  show ?thesis
  proof (cases "\<exists>d. object_attributes_values obj = JDict d")
    case True
    then obtain d where d: "object_attributes_values obj = JDict d" ..
    with e have "effective_values (Some obj) (JDict []) = JDict d" by simp
    from validate_checks [OF assms n this, unfolded a] show ?thesis
      by (simp add: d)
  next
    case False
    with e have "\<nexists>d. effective_values (Some obj) (JDict []) = JDict d" by simp
    from validate_not_mapping [OF assms n this] False show ?thesis
      by (simp split: json.splits)
  qed
qed

theorem empty_mapping_falls_back_witness:
  "attributes_values empty_update = Some (JDict [])
   \<and> validate_attributes_values UserStory (Some stored_payload) estimate_db empty_update
       = ([Query_all UserStory, Query_count UserStory (Some 1) [''9'']], Inl UnknownAttributeReference)
   \<and> validate_attributes_values UserStory None estimate_db empty_update
       = ([Query_all UserStory, Query_count UserStory None []], Inr empty_update)"
proof -
  have h: "attributes_values empty_update = Some (JDict [])"
    by (simp add: empty_update_def)
  have c: "count_in (UserStoryCustomAttribute estimate_db) (Some 1) [''9''] = Inr 0"
    by code_simp
  have p: "effective_project_id (Some stored_payload) empty_update = Some 1"
    by (simp add: effective_project_id_def stored_payload_def empty_update_def)
  have s: "object_attributes_values stored_payload = JDict [(''9'', JStr ''x'')]"
    by (simp add: stored_payload_def)
  have "validate_attributes_values UserStory (Some stored_payload) estimate_db empty_update
       = ([Query_all UserStory, Query_count UserStory (Some 1) [''9'']], Inl UnknownAttributeReference)"
    using empty_mapping_falls_back [OF h, of UserStory stored_payload estimate_db]
    unfolding s p by (simp add: c)
  moreover have "validate_attributes_values UserStory None estimate_db empty_update
       = ([Query_all UserStory, Query_count UserStory None []], Inr empty_update)"
    by code_simp
  ultimately show ?thesis using h by blast
qed

end
